theory Spec2Isabelle
  imports Main "HOL-Library.Sublist" "HOL-Library.Word"
begin

section \<open>Data model of \<open>main.cpp\<close>\<close>

text \<open>
  The C++ type \<open>int\<close> is 32 bits wide on the platforms the program is built for; a
  value of it is a \<open>32 word\<close>, read as two's complement with \<open>sint\<close>.
\<close>

type_synonym c_int = "32 word"

text \<open>
  \<open>PipelineError\<close> is the \<open>std::variant\<close> of the four error structs. Each
  constructor is one alternative and carries the fields of its struct, in the order the
  struct declares them.
\<close>

datatype PipelineError =
    ConfigReadError (filename: string)
  | ConfigParseError (line_content: string) (line_number: c_int)
  | ValidationError (field_name: string) (invalid_value: string)
  | ProcessingError (task_name: string) (details: string)

text \<open>\<open>std::variant::index\<close>: the position of the alternative held.\<close>

fun index :: "PipelineError \<Rightarrow> nat" where
  "index (ConfigReadError _) = 0"
| "index (ConfigParseError _ _) = 1"
| "index (ValidationError _ _) = 2"
| "index (ProcessingError _ _) = 3"

record Config =
  data :: string

record ValidatedData =
  processed_data :: string

record Result =
  final_result_code :: c_int

text \<open>
  What the program reads and writes: the files it can open (a path that cannot be opened
  maps to \<open>None\<close>, any other to the bytes read from it) and the text written so far to
  \<open>std::cout\<close> and to \<open>std::cerr\<close>.
\<close>

record world =
  files :: "string \<rightharpoonup> string"
  cout :: string
  cerr :: string

text \<open>\<open>std::expected<T, PipelineError>\<close> is \<open>PipelineError + T\<close>, \<open>Inl\<close> the error.\<close>

type_synonym 'a expected = "PipelineError + 'a"

definition endl :: string where
  "endl = [CHR 0x0A]"

definition write_cout :: "string \<Rightarrow> world \<Rightarrow> world" where
  "write_cout s w = w\<lparr>cout := cout w @ s\<rparr>"

definition write_cerr :: "string \<Rightarrow> world \<Rightarrow> world" where
  "write_cerr s w = w\<lparr>cerr := cerr w @ s\<rparr>"

section \<open>Library operations the program calls\<close>

text \<open>
  \<open>std::string::find(pattern)\<close> from position 0: the least position at which the
  pattern occurs, \<open>None\<close> for \<open>npos\<close>.
\<close>

fun str_find :: "string \<Rightarrow> string \<Rightarrow> nat option" where
  "str_find [] pat = (if pat = [] then Some 0 else None)"
| "str_find (c # cs) pat =
     (if prefix pat (c # cs) then Some 0 else map_option Suc (str_find cs pat))"

text \<open>
  \<open>std::expected::and_then\<close>: on a value, the result of calling \<open>f\<close> on it; on
  an error, the same error, and \<open>f\<close> is not called. The state is threaded through the
  call of \<open>f\<close> only.
\<close>

definition and_then ::
  "('e + 'a) \<times> 's \<Rightarrow> ('a \<Rightarrow> 's \<Rightarrow> ('e + 'b) \<times> 's) \<Rightarrow> ('e + 'b) \<times> 's" where
  "and_then r f = (case r of (Inr v, s) \<Rightarrow> f v s | (Inl e, s) \<Rightarrow> (Inl e, s))"

text \<open>\<open>operator<<\<close> on an \<open>int\<close>: its decimal digits, with a sign when negative.\<close>

fun show_nat :: "nat \<Rightarrow> string" where
  "show_nat n =
     (if n < 10 then [''0123456789'' ! n]
      else show_nat (n div 10) @ [''0123456789'' ! (n mod 10)])"

definition show_int :: "int \<Rightarrow> string" where
  "show_int i = (if i < 0 then CHR ''-'' # show_nat (nat (- i)) else show_nat (nat i))"

section \<open>The three stages\<close>

definition LoadConfig :: "string \<Rightarrow> world \<Rightarrow> Config expected \<times> world" where
  "LoadConfig fname w =
     (case files w fname of
        None \<Rightarrow>
          (Inl (ConfigReadError fname),
           write_cerr (''DEBUG: LoadConfig failed to open '' @ fname @ endl) w)
      | Some content \<Rightarrow>
          if content = [] \<or> str_find content ''malformed'' \<noteq> None then
            (Inl (ConfigParseError ''malformed'' 1),
             write_cerr (''DEBUG: LoadConfig detected malformed config in '' @ fname @ endl) w)
          else
            (Inr \<lparr>data = content\<rparr>,
             write_cout (''DEBUG: Config loaded successfully from '' @ fname @ endl) w))"

definition ValidateData :: "Config \<Rightarrow> world \<Rightarrow> ValidatedData expected \<times> world" where
  "ValidateData config w =
     (if str_find (data config) ''invalid_field'' \<noteq> None then
        (Inl (ValidationError ''invalid_field'' ''contains disallowed value''),
         write_cerr (''DEBUG: ValidateData detected invalid field.'' @ endl) w)
      else
        (Inr \<lparr>processed_data = ''Validated: '' @ data config\<rparr>,
         write_cout (''DEBUG: Data validated successfully.'' @ endl) w))"

text \<open>
  \<open>static_cast<int>\<close> of the \<open>size_t\<close> length keeps its low 32 bits: \<open>of_nat\<close>
  into \<open>32 word\<close>.
\<close>

definition ProcessData :: "ValidatedData \<Rightarrow> world \<Rightarrow> Result expected \<times> world" where
  "ProcessData d w =
     (if length (processed_data d) < 10 then
        (Inl (ProcessingError ''Data Processing'' ''Input data too short for task''),
         write_cerr (''DEBUG: ProcessData detected data too short.'' @ endl) w)
      else
        (Inr \<lparr>final_result_code = of_nat (length (processed_data d))\<rparr>,
         write_cout (''DEBUG: Data processed successfully.'' @ endl) w))"

section \<open>The pipeline\<close>

definition call_pipeline :: "string \<Rightarrow> world \<Rightarrow> Result expected \<times> world" where
  "call_pipeline configfile w =
     and_then
       (and_then (LoadConfig configfile w) (\<lambda>cfg. ValidateData cfg))
       (\<lambda>vd. ProcessData vd)"

section \<open>The dispatcher\<close>

text \<open>
  The lambdas handed to \<open>Overloaded\<close>, in source order. A lambda whose parameter is
  \<open>const T&\<close> for one alternative \<open>T\<close> can be called on that alternative only:
  its model gives \<open>None\<close> on any other. The generic lambda (\<open>auto&&\<close>) can be
  called on every alternative.
\<close>

definition quote :: string where
  "quote = [CHR 0x27]"

fun read_arm :: "PipelineError \<Rightarrow> string option" where
  "read_arm (ConfigReadError f) =
     Some (''Configuration Read Error: Could not open file '' @ quote @ f @ quote @ endl)"
| "read_arm _ = None"

fun parse_arm :: "PipelineError \<Rightarrow> string option" where
  "parse_arm (ConfigParseError l n) =
     Some (''Configuration Parse Error: Malformed content at line '' @ show_int (sint n)
           @ '' (Context: '' @ quote @ l @ quote @ '')'' @ endl)"
| "parse_arm _ = None"

fun validation_arm :: "PipelineError \<Rightarrow> string option" where
  "validation_arm (ValidationError f v) =
     Some (''Data Validation Error: Field '' @ quote @ f @ quote
           @ '' has invalid value '' @ quote @ v @ quote @ endl)"
| "validation_arm _ = None"

fun processing_arm :: "PipelineError \<Rightarrow> string option" where
  "processing_arm (ProcessingError t d) =
     Some (''Data Processing Error: Task '' @ quote @ t @ quote
           @ '' failed. Details: '' @ d @ endl)"
| "processing_arm _ = None"

definition fallback_arm :: "PipelineError \<Rightarrow> string" where
  "fallback_arm arg = ''An unexpected error type was encountered.'' @ endl"

definition typed_arms :: "(PipelineError \<Rightarrow> string option) list" where
  "typed_arms = [read_arm, parse_arm, validation_arm, processing_arm]"

text \<open>
  \<open>std::visit\<close> calls the overload set on the alternative held. Overload resolution
  prefers a non-template call operator that can be called on the alternative to the
  generic one, which runs only when no other can be called. The result names the arm
  that ran and the text it wrote.
\<close>

datatype arm = Typed nat | Fallback

definition visit ::
  "(PipelineError \<Rightarrow> string option) list \<Rightarrow> (PipelineError \<Rightarrow> string) \<Rightarrow> PipelineError
     \<Rightarrow> arm \<times> string" where
  "visit typed generic e =
     (case List.map_filter (\<lambda>(i, h). map_option (Pair (Typed i)) (h e)) (enumerate 0 typed) of
        r # _ \<Rightarrow> r
      | [] \<Rightarrow> (Fallback, generic e))"

definition handle_pipeline_result :: "Result expected \<Rightarrow> world \<Rightarrow> world" where
  "handle_pipeline_result final_result w =
     (case final_result of
        Inr r \<Rightarrow>
          write_cout (endl @ ''Pipeline Succeeded! Final Result Code: ''
                      @ show_int (sint (final_result_code r)) @ endl) w
      | Inl e \<Rightarrow>
          write_cerr (snd (visit typed_arms fallback_arm e))
            (write_cerr (endl @ ''Pipeline Failed! Error details: '') w))"

text \<open>A world with no file and nothing written, and the same with one file in it.\<close>

definition empty_world :: world where
  "empty_world = \<lparr>files = Map.empty, cout = [], cerr = []\<rparr>"

definition world_with :: "string \<Rightarrow> string \<Rightarrow> world" where
  "world_with path content = empty_world\<lparr>files := [path \<mapsto> content]\<rparr>"

section \<open>Facts about the library operations\<close>

text \<open>
  \<open>find\<close> returns \<open>npos\<close> exactly when the pattern is not a substring of the text
  (\<open>sublist pat s\<close>: \<open>s = ps @ pat @ ss\<close> for some \<open>ps\<close>, \<open>ss\<close>).
\<close>

lemma str_find_None: "str_find s pat = None \<longleftrightarrow> \<not> sublist pat s"
  by (induction s) (auto simp: sublist_Cons_right)

lemma str_find_Some: "(\<exists>i. str_find s pat = Some i) \<longleftrightarrow> sublist pat s"
  using str_find_None [of s pat] by auto

lemma sublist_iff_str_find: "sublist pat s \<longleftrightarrow> str_find s pat \<noteq> None"
  by (simp add: str_find_None)

lemma and_then_Inl: "and_then (Inl e, s) f = (Inl e, s)"
  by (simp add: and_then_def)

lemma and_then_Inr: "and_then (Inr v, s) f = f v s"
  by (simp add: and_then_def)

text \<open>The conversion to \<open>int\<close> keeps a length below \<open>2 ^ 31\<close>.\<close>

lemma sint_length_small:
  assumes "n < 2 ^ 31"
  shows "sint (of_nat n :: c_int) = int n"
proof -
  have "int n < 2 ^ 31"
    using assms by (metis of_nat_less_iff of_nat_numeral of_nat_power)
  then have "signed_take_bit 31 (int n) = int n"
    by (intro signed_take_bit_int_eq_self) auto
  then show ?thesis
    by (simp add: signed_of_nat)
qed

section \<open>What each stage returns and writes\<close>

lemma LoadConfig_fst:
  "fst (LoadConfig p w) =
     (case files w p of
        None \<Rightarrow> Inl (ConfigReadError p)
      | Some content \<Rightarrow>
          if content = [] \<or> sublist ''malformed'' content
          then Inl (ConfigParseError ''malformed'' 1) else Inr \<lparr>data = content\<rparr>)"
  by (simp add: LoadConfig_def str_find_None str_find_Some split: option.splits)

lemma ValidateData_fst:
  "fst (ValidateData cfg w) =
     (if sublist ''invalid_field'' (data cfg)
      then Inl (ValidationError ''invalid_field'' ''contains disallowed value'')
      else Inr \<lparr>processed_data = ''Validated: '' @ data cfg\<rparr>)"
  by (simp add: ValidateData_def str_find_None str_find_Some)

lemma ProcessData_fst:
  "fst (ProcessData vd w) =
     (if length (processed_data vd) < 10
      then Inl (ProcessingError ''Data Processing'' ''Input data too short for task'')
      else Inr \<lparr>final_result_code = of_nat (length (processed_data vd))\<rparr>)"
  by (simp add: ProcessData_def)

lemma files_LoadConfig: "files (snd (LoadConfig p w)) = files w"
  by (simp add: LoadConfig_def write_cerr_def write_cout_def split: option.splits)

lemma files_ValidateData: "files (snd (ValidateData cfg w)) = files w"
  by (simp add: ValidateData_def write_cerr_def write_cout_def)

lemma files_ProcessData: "files (snd (ProcessData vd w)) = files w"
  by (simp add: ProcessData_def write_cerr_def write_cout_def)

text \<open>Every call of a stage writes a line, so a stage that ran shows in the world.\<close>

lemma write_cout_changes: "s \<noteq> [] \<Longrightarrow> write_cout s w \<noteq> w"
proof
  assume s: "s \<noteq> []" and eq: "write_cout s w = w"
  from eq have "cout (write_cout s w) = cout w"
    by simp
  with s show False
    by (simp add: write_cout_def)
qed

lemma write_cerr_changes: "s \<noteq> [] \<Longrightarrow> write_cerr s w \<noteq> w"
proof
  assume s: "s \<noteq> []" and eq: "write_cerr s w = w"
  from eq have "cerr (write_cerr s w) = cerr w"
    by simp
  with s show False
    by (simp add: write_cerr_def)
qed

lemma LoadConfig_writes: "snd (LoadConfig p w) \<noteq> w"
  by (simp add: LoadConfig_def write_cout_changes write_cerr_changes endl_def
        split: option.splits)

lemma ValidateData_writes: "snd (ValidateData cfg w) \<noteq> w"
  by (simp add: ValidateData_def write_cout_changes write_cerr_changes)

lemma ProcessData_writes: "snd (ProcessData vd w) \<noteq> w"
  by (simp add: ProcessData_def write_cout_changes write_cerr_changes)

section \<open>The pipeline, stage by stage\<close>

lemma call_pipeline_unfold:
  "call_pipeline p w =
     (case LoadConfig p w of
        (Inl e, w1) \<Rightarrow> (Inl e, w1)
      | (Inr cfg, w1) \<Rightarrow>
          (case ValidateData cfg w1 of
             (Inl e, w2) \<Rightarrow> (Inl e, w2)
           | (Inr vd, w2) \<Rightarrow> ProcessData vd w2))"
  by (simp add: call_pipeline_def and_then_def split: prod.splits sum.splits)

text \<open>The result of the pipeline does not depend on what was written before.\<close>

lemma call_pipeline_fst:
  "fst (call_pipeline p w) =
     (case fst (LoadConfig p w) of
        Inl e \<Rightarrow> Inl e
      | Inr cfg \<Rightarrow>
          (case fst (ValidateData cfg w) of
             Inl e \<Rightarrow> Inl e
           | Inr vd \<Rightarrow> fst (ProcessData vd w)))"
proof -
  obtain r1 w1 where L: "LoadConfig p w = (r1, w1)"
    by (cases "LoadConfig p w")
  show ?thesis
  proof (cases r1)
    case (Inl e)
    with L show ?thesis
      by (simp add: call_pipeline_unfold)
  next
    case (Inr cfg)
    obtain r2 w2 where V: "ValidateData cfg w1 = (r2, w2)"
      by (cases "ValidateData cfg w1")
    have r2: "fst (ValidateData cfg w) = r2"
      using V ValidateData_fst [of cfg w] ValidateData_fst [of cfg w1] by simp
    show ?thesis
    proof (cases r2)
      case (Inl e)
      with L Inr V r2 show ?thesis
        by (simp add: call_pipeline_unfold)
    next
      case vd: (Inr vd)
      have "fst (ProcessData vd w2) = fst (ProcessData vd w)"
        by (simp add: ProcessData_fst)
      with L Inr V r2 vd show ?thesis
        by (simp add: call_pipeline_unfold)
    qed
  qed
qed

lemma files_call_pipeline: "files (snd (call_pipeline p w)) = files w"
proof -
  obtain r1 w1 where L: "LoadConfig p w = (r1, w1)"
    by (cases "LoadConfig p w")
  have w1: "files w1 = files w"
    using files_LoadConfig [of p w] L by simp
  show ?thesis
  proof (cases r1)
    case (Inl e)
    with L w1 show ?thesis
      by (simp add: call_pipeline_unfold)
  next
    case (Inr cfg)
    obtain r2 w2 where V: "ValidateData cfg w1 = (r2, w2)"
      by (cases "ValidateData cfg w1")
    have w2: "files w2 = files w"
      using files_ValidateData [of cfg w1] V w1 by simp
    show ?thesis
    proof (cases r2)
      case (Inl e)
      with L Inr V w2 show ?thesis
        by (simp add: call_pipeline_unfold)
    next
      case vd: (Inr vd)
      with L Inr V w2 show ?thesis
        by (simp add: call_pipeline_unfold files_ProcessData)
    qed
  qed
qed

lemma call_pipeline_file_only:
  "files a p = files b p \<Longrightarrow> fst (call_pipeline p a) = fst (call_pipeline p b)"
  by (simp add: call_pipeline_fst LoadConfig_fst ValidateData_fst ProcessData_fst
        cong: sum.case_cong)

lemmas run_defs =
  call_pipeline_def and_then_def LoadConfig_def ValidateData_def ProcessData_def
  world_with_def empty_world_def write_cout_def write_cerr_def endl_def

section \<open>Claims\<close>

text \<open>
  C1. A failure handed to the chaining combinator comes back untouched, with the state
  as it was, whatever the stage function \<open>f\<close>: \<open>f\<close> is not run. In the pipeline, when
  Load fails the terminal result is Load's error and the world is the one Load left; when
  Load succeeds and Validate fails the terminal result is Validate's error and the world is
  the one Validate left; otherwise the pipeline ends as Process does. A stage that runs
  always changes the world, so the world a failing stage left shows that no later stage
  ran.
\<close>

theorem C1_first_failure_short_circuits:
  "and_then (Inl e, s) f = (Inl e, s) \<and>
   (fst (LoadConfig p w) = Inl e1 \<longrightarrow>
      call_pipeline p w = (Inl e1, snd (LoadConfig p w))) \<and>
   (LoadConfig p w = (Inr cfg, w1) \<and> fst (ValidateData cfg w1) = Inl e2 \<longrightarrow>
      call_pipeline p w = (Inl e2, snd (ValidateData cfg w1))) \<and>
   (LoadConfig p w = (Inr cfg, w1) \<and> ValidateData cfg w1 = (Inr vd, w2) \<longrightarrow>
      call_pipeline p w = ProcessData vd w2) \<and>
   snd (ValidateData cfg' w') \<noteq> w' \<and> snd (ProcessData vd' w') \<noteq> w'"
proof -
  have "fst (LoadConfig p w) = Inl e1 \<longrightarrow> call_pipeline p w = (Inl e1, snd (LoadConfig p w))"
    by (cases "LoadConfig p w") (simp add: call_pipeline_unfold)
  moreover have "LoadConfig p w = (Inr cfg, w1) \<and> fst (ValidateData cfg w1) = Inl e2 \<longrightarrow>
      call_pipeline p w = (Inl e2, snd (ValidateData cfg w1))"
    by (cases "ValidateData cfg w1") (simp add: call_pipeline_unfold)
  moreover have "LoadConfig p w = (Inr cfg, w1) \<and> ValidateData cfg w1 = (Inr vd, w2) \<longrightarrow>
      call_pipeline p w = ProcessData vd w2"
    by (simp add: call_pipeline_unfold)
  ultimately show ?thesis
    by (simp add: and_then_Inl ValidateData_writes ProcessData_writes)
qed

text \<open>
  At concrete inputs: a stage function that counts its calls is not called on a failure;
  a file with the parse sentinel stops the pipeline after Load, and a file with the
  validation sentinel stops it after Validate, with nothing written by a later stage.
\<close>

theorem C1_first_failure_short_circuits_witness:
  "and_then (Inl (ConfigReadError ''x''), 0 :: nat) (\<lambda>(v :: Config) n. (Inr v, Suc n))
     = (Inl (ConfigReadError ''x'') :: Config expected, 0) \<and>
   fst (LoadConfig ''cfg'' (world_with ''cfg'' ''malformed content''))
     = Inl (ConfigParseError ''malformed'' 1) \<and>
   call_pipeline ''cfg'' (world_with ''cfg'' ''malformed content'')
     = (Inl (ConfigParseError ''malformed'' 1),
        snd (LoadConfig ''cfg'' (world_with ''cfg'' ''malformed content''))) \<and>
   cout (snd (call_pipeline ''cfg'' (world_with ''cfg'' ''malformed content''))) = [] \<and>
   call_pipeline ''cfg'' (world_with ''cfg'' ''invalid_field'')
     = (Inl (ValidationError ''invalid_field'' ''contains disallowed value''),
        \<lparr>files = [''cfg'' \<mapsto> ''invalid_field''],
         cout = ''DEBUG: Config loaded successfully from cfg'' @ endl,
         cerr = ''DEBUG: ValidateData detected invalid field.'' @ endl\<rparr>)"
proof -
  let ?bad = "world_with ''cfg'' ''malformed content''"
  let ?inv = "world_with ''cfg'' ''invalid_field''"
  let ?w1 = "\<lparr>files = [''cfg'' \<mapsto> ''invalid_field''],
              cout = ''DEBUG: Config loaded successfully from cfg'' @ endl, cerr = []\<rparr>"
  have load_bad: "fst (LoadConfig ''cfg'' ?bad) = Inl (ConfigParseError ''malformed'' 1)"
    by (simp add: run_defs)
  have load_inv: "LoadConfig ''cfg'' ?inv = (Inr \<lparr>data = ''invalid_field''\<rparr>, ?w1)"
    by (simp add: run_defs)
  have val_inv: "fst (ValidateData \<lparr>data = ''invalid_field''\<rparr> ?w1)
      = Inl (ValidationError ''invalid_field'' ''contains disallowed value'')"
    by (simp add: run_defs)
  have a: "call_pipeline ''cfg'' ?bad = (Inl (ConfigParseError ''malformed'' 1), snd (LoadConfig ''cfg'' ?bad))"
    using C1_first_failure_short_circuits
      [of "ConfigReadError []" "()" "\<lambda>(v :: unit) s. (Inr v :: unit expected, s)"
          "''cfg''" ?bad "ConfigParseError ''malformed'' 1"] load_bad
    by simp
  have b: "call_pipeline ''cfg'' ?inv
      = (Inl (ValidationError ''invalid_field'' ''contains disallowed value''),
         snd (ValidateData \<lparr>data = ''invalid_field''\<rparr> ?w1))"
    using C1_first_failure_short_circuits
      [of "ConfigReadError []" "()" "\<lambda>(v :: unit) s. (Inr v :: unit expected, s)"
          "''cfg''" ?inv "ConfigReadError []" "\<lparr>data = ''invalid_field''\<rparr>" ?w1
          "ValidationError ''invalid_field'' ''contains disallowed value''"]
      load_inv val_inv
    by simp
  have c: "and_then (Inl (ConfigReadError ''x''), 0 :: nat) (\<lambda>(v :: Config) n. (Inr v, Suc n))
     = (Inl (ConfigReadError ''x'') :: Config expected, 0)"
    using C1_first_failure_short_circuits
      [of "ConfigReadError ''x''" "0 :: nat" "\<lambda>(v :: Config) n. (Inr v :: Config expected, Suc n)"]
    by simp
  have d: "cout (snd (LoadConfig ''cfg'' ?bad)) = []"
    by (simp add: run_defs)
  have e: "snd (ValidateData \<lparr>data = ''invalid_field''\<rparr> ?w1)
      = \<lparr>files = [''cfg'' \<mapsto> ''invalid_field''],
         cout = ''DEBUG: Config loaded successfully from cfg'' @ endl,
         cerr = ''DEBUG: ValidateData detected invalid field.'' @ endl\<rparr>"
    by (simp add: run_defs)
  show ?thesis
    using a b c d e load_bad by simp
qed

text \<open>
  C2. For every path that cannot be opened, Load fails with \<open>ConfigReadError\<close> carrying
  the requested path, and so does the whole pipeline called on that path.
\<close>

theorem C2_unopenable_path_read_error:
  "files w p = None \<Longrightarrow>
     fst (LoadConfig p w) = Inl (ConfigReadError p) \<and>
     fst (call_pipeline p w) = Inl (ConfigReadError p) \<and>
     filename (ConfigReadError p) = p"
  by (simp add: call_pipeline_fst LoadConfig_fst)

theorem C2_unopenable_path_read_error_witness:
  "files empty_world ''this_file_should_not_exist.txt'' = None \<and>
   fst (LoadConfig ''this_file_should_not_exist.txt'' empty_world)
     = Inl (ConfigReadError ''this_file_should_not_exist.txt'') \<and>
   fst (call_pipeline ''this_file_should_not_exist.txt'' empty_world)
     = Inl (ConfigReadError ''this_file_should_not_exist.txt'')"
proof -
  have h: "files empty_world ''this_file_should_not_exist.txt'' = None"
    by (simp add: empty_world_def)
  show ?thesis
    using h C2_unopenable_path_read_error [OF h] by simp
qed

text \<open>
  C3. For every source that can be read: when its content is empty or contains the
  substring \<open>malformed\<close>, Load fails with \<open>ConfigParseError\<close> carrying the excerpt
  \<open>malformed\<close> and the position 1; when its content is not empty and does not contain
  \<open>malformed\<close>, Load succeeds with a \<open>Config\<close> holding the content as read.
\<close>

theorem C3_load_parse_error_or_config:
  "files w p = Some content \<Longrightarrow>
     (content = [] \<or> sublist ''malformed'' content \<longrightarrow>
        fst (LoadConfig p w) = Inl (ConfigParseError ''malformed'' 1)) \<and>
     (content \<noteq> [] \<and> \<not> sublist ''malformed'' content \<longrightarrow>
        fst (LoadConfig p w) = Inr \<lparr>data = content\<rparr>)"
  by (simp add: LoadConfig_fst)

theorem C3_load_parse_error_or_config_witness:
  "files (world_with ''e'' []) ''e'' = Some [] \<and>
   fst (LoadConfig ''e'' (world_with ''e'' [])) = Inl (ConfigParseError ''malformed'' 1) \<and>
   sublist ''malformed'' ''malformed content'' \<and>
   fst (LoadConfig ''m'' (world_with ''m'' ''malformed content''))
     = Inl (ConfigParseError ''malformed'' 1) \<and>
   \<not> sublist ''malformed'' ''valid_data_content'' \<and>
   fst (LoadConfig ''v'' (world_with ''v'' ''valid_data_content''))
     = Inr \<lparr>data = ''valid_data_content''\<rparr>"
proof -
  have f: "files (world_with q c) q = Some c" for q c
    by (simp add: world_with_def empty_world_def)
  have m: "sublist ''malformed'' ''malformed content''"
    by (simp add: sublist_iff_str_find)
  have v: "\<not> sublist ''malformed'' ''valid_data_content''"
    by (simp add: sublist_iff_str_find)
  show ?thesis
    using m v f [of "''e''" "[]"]
      C3_load_parse_error_or_config [OF f [of "''e''" "[]"]]
      C3_load_parse_error_or_config [OF f [of "''m''" "''malformed content''"]]
      C3_load_parse_error_or_config [OF f [of "''v''" "''valid_data_content''"]]
    by simp
qed

text \<open>
  C4. For every \<open>Config\<close>, Validate fails with \<open>ValidationError\<close> carrying the field
  name \<open>invalid_field\<close> and the value \<open>contains disallowed value\<close> if and only if
  the text contains the substring \<open>invalid_field\<close>, and it fails in no other way;
  otherwise it succeeds with the text \<open>Validated: \<close> followed by the raw text.
\<close>

theorem C4_validate_iff_sentinel:
  "(fst (ValidateData cfg w)
      = Inl (ValidationError ''invalid_field'' ''contains disallowed value'')
      \<longleftrightarrow> sublist ''invalid_field'' (data cfg)) \<and>
   (isl (fst (ValidateData cfg w)) \<longleftrightarrow> sublist ''invalid_field'' (data cfg)) \<and>
   (\<not> sublist ''invalid_field'' (data cfg) \<longrightarrow>
      fst (ValidateData cfg w) = Inr \<lparr>processed_data = ''Validated: '' @ data cfg\<rparr>)"
  by (simp add: ValidateData_fst)

theorem C4_validate_iff_sentinel_witness:
  "\<not> sublist ''invalid_field'' ''valid_data_content'' \<and>
   fst (ValidateData \<lparr>data = ''valid_data_content''\<rparr> empty_world)
     = Inr \<lparr>processed_data = ''Validated: valid_data_content''\<rparr> \<and>
   sublist ''invalid_field'' (''valid_data'' @ endl @ ''invalid_field'') \<and>
   fst (ValidateData \<lparr>data = ''valid_data'' @ endl @ ''invalid_field''\<rparr> empty_world)
     = Inl (ValidationError ''invalid_field'' ''contains disallowed value'')"
proof -
  have v: "\<not> sublist ''invalid_field'' ''valid_data_content''"
    by (simp add: sublist_iff_str_find)
  have i: "sublist ''invalid_field'' (''valid_data'' @ endl @ ''invalid_field'')"
    by (simp add: sublist_iff_str_find endl_def)
  show ?thesis
    using v i
      C4_validate_iff_sentinel [of "\<lparr>data = ''valid_data_content''\<rparr>" empty_world]
      C4_validate_iff_sentinel [of "\<lparr>data = ''valid_data'' @ endl @ ''invalid_field''\<rparr>" empty_world]
    by simp
qed

text \<open>
  C5, as the code has it. For every \<open>ValidatedData\<close>, Process fails with
  \<open>ProcessingError\<close> carrying the task \<open>Data Processing\<close> and the detail
  \<open>Input data too short for task\<close> if and only if the text is shorter than 10, and it
  fails in no other way; otherwise it succeeds with the code that the conversion of the
  length to \<open>int\<close> gives, which is the length itself whenever the length is below
  \<open>2 ^ 31\<close>.
\<close>

theorem C5_process_threshold_and_code:
  "(fst (ProcessData vd w)
      = Inl (ProcessingError ''Data Processing'' ''Input data too short for task'')
      \<longleftrightarrow> length (processed_data vd) < 10) \<and>
   (isl (fst (ProcessData vd w)) \<longleftrightarrow> length (processed_data vd) < 10) \<and>
   (\<not> length (processed_data vd) < 10 \<longrightarrow>
      fst (ProcessData vd w)
        = Inr \<lparr>final_result_code = of_nat (length (processed_data vd))\<rparr>) \<and>
   (\<not> length (processed_data vd) < 10 \<and> length (processed_data vd) < 2 ^ 31 \<longrightarrow>
      (\<exists>r. fst (ProcessData vd w) = Inr r \<and>
           sint (final_result_code r) = int (length (processed_data vd))))"
  by (simp add: ProcessData_fst sint_length_small)

theorem C5_process_threshold_and_code_witness:
  "length (processed_data \<lparr>processed_data = ''too short''\<rparr>) < 10 \<and>
   fst (ProcessData \<lparr>processed_data = ''too short''\<rparr> empty_world)
     = Inl (ProcessingError ''Data Processing'' ''Input data too short for task'') \<and>
   \<not> length (processed_data \<lparr>processed_data = ''ten chars!''\<rparr>) < 10 \<and>
   length (processed_data \<lparr>processed_data = ''ten chars!''\<rparr>) < 2 ^ 31 \<and>
   fst (ProcessData \<lparr>processed_data = ''ten chars!''\<rparr> empty_world)
     = Inr \<lparr>final_result_code = 10\<rparr> \<and>
   sint (10 :: c_int) = int (length ''ten chars!'')"
  using C5_process_threshold_and_code [of "\<lparr>processed_data = ''too short''\<rparr>" empty_world]
    C5_process_threshold_and_code [of "\<lparr>processed_data = ''ten chars!''\<rparr>" empty_world]
  by simp

text \<open>
  The claim C5 as written (the code equals the text length, for every record) fails on a
  text of \<open>2 ^ 31\<close> characters: the length is not below 10, Process succeeds, and the
  code is \<open>- 2 ^ 31\<close>.
\<close>

theorem C5_code_is_not_length_counterexample:
  "\<not> length (processed_data \<lparr>processed_data = replicate (2 ^ 31) (CHR ''a'')\<rparr>) < 10 \<and>
   fst (ProcessData \<lparr>processed_data = replicate (2 ^ 31) (CHR ''a'')\<rparr> empty_world)
     = Inr \<lparr>final_result_code = - 2147483648\<rparr> \<and>
   sint (final_result_code \<lparr>final_result_code = - 2147483648\<rparr>) = - 2147483648 \<and>
   int (length (processed_data \<lparr>processed_data = replicate (2 ^ 31) (CHR ''a'')\<rparr>))
     = 2147483648 \<and>
   sint (final_result_code \<lparr>final_result_code = - 2147483648\<rparr>)
     \<noteq> int (length (processed_data \<lparr>processed_data = replicate (2 ^ 31) (CHR ''a'')\<rparr>))"
  by (simp add: ProcessData_fst)

text \<open>
  C6. The claim says that a payload shorter than 10 characters, run through the pipeline,
  ends in \<open>ProcessingError\<close>. The code does not do that: on the file of Scenario 5 of
  \<open>main\<close>, whose content is \<open>short\<close>, the pipeline succeeds with code 16, the length
  of \<open>Validated: short\<close>. Process on the bare prefix succeeds too, with code 11.
\<close>

theorem C6_short_payload_succeeds:
  "length ''short'' < 10 \<and>
   fst (call_pipeline ''short_data_config.txt''
          (world_with ''short_data_config.txt'' ''short''))
     = Inr \<lparr>final_result_code = 16\<rparr> \<and>
   fst (ProcessData \<lparr>processed_data = ''Validated: ''\<rparr> empty_world)
     = Inr \<lparr>final_result_code = 11\<rparr>"
  by (simp add: run_defs)

text \<open>
  C7. For every source whose content is \<open>valid_data_content\<close>, the pipeline succeeds
  and the code is 29, the length of \<open>Validated: valid_data_content\<close>.
\<close>

theorem C7_valid_content_code_29:
  "files w p = Some ''valid_data_content'' \<Longrightarrow>
     fst (call_pipeline p w) = Inr \<lparr>final_result_code = 29\<rparr> \<and>
     sint (final_result_code \<lparr>final_result_code = 29\<rparr>)
       = int (length ''Validated: valid_data_content'')"
  by (simp add: call_pipeline_def and_then_def LoadConfig_def ValidateData_def ProcessData_def)

theorem C7_valid_content_code_29_witness:
  "files (world_with ''valid_config.txt'' ''valid_data_content'') ''valid_config.txt''
     = Some ''valid_data_content'' \<and>
   fst (call_pipeline ''valid_config.txt''
          (world_with ''valid_config.txt'' ''valid_data_content''))
     = Inr \<lparr>final_result_code = 29\<rparr>"
proof -
  have h: "files (world_with ''valid_config.txt'' ''valid_data_content'') ''valid_config.txt''
      = Some ''valid_data_content''"
    by (simp add: world_with_def empty_world_def)
  show ?thesis
    using h C7_valid_content_code_29 [OF h] by simp
qed

text \<open>
  C8. The result of the pipeline depends only on the path and on what that path holds:
  two runs on worlds in which the path has the same content (or cannot be opened in
  either) give equal results, whatever the other files hold and whatever was written
  before. A run leaves the files as they were, so a second run, started in the world the
  first one left, gives the result of the first.
\<close>

theorem C8_two_runs_equal_results:
  "(files w' p = files w p \<longrightarrow> fst (call_pipeline p w') = fst (call_pipeline p w)) \<and>
   files (snd (call_pipeline p w)) = files w \<and>
   fst (call_pipeline p (snd (call_pipeline p w))) = fst (call_pipeline p w)"
proof -
  have same: "files (snd (call_pipeline p w)) p = files w p"
    by (simp add: files_call_pipeline)
  show ?thesis
    using call_pipeline_file_only [of w' p w]
      call_pipeline_file_only [OF same]
      files_call_pipeline [of p w]
    by simp
qed

text \<open>
  At concrete inputs: the second world holds another file and earlier output, and the
  path read holds the same content in both.
\<close>

theorem C8_two_runs_equal_results_witness:
  "files \<lparr>files = [''cfg'' \<mapsto> ''valid_data_content'', ''other'' \<mapsto> ''malformed''],
          cout = ''earlier output'', cerr = ''earlier errors''\<rparr> ''cfg''
     = files (world_with ''cfg'' ''valid_data_content'') ''cfg'' \<and>
   files \<lparr>files = [''cfg'' \<mapsto> ''valid_data_content'', ''other'' \<mapsto> ''malformed''],
          cout = ''earlier output'', cerr = ''earlier errors''\<rparr>
     \<noteq> files (world_with ''cfg'' ''valid_data_content'') \<and>
   fst (call_pipeline ''cfg''
          \<lparr>files = [''cfg'' \<mapsto> ''valid_data_content'', ''other'' \<mapsto> ''malformed''],
           cout = ''earlier output'', cerr = ''earlier errors''\<rparr>)
     = fst (call_pipeline ''cfg'' (world_with ''cfg'' ''valid_data_content'')) \<and>
   fst (call_pipeline ''cfg''
          (snd (call_pipeline ''cfg'' (world_with ''cfg'' ''valid_data_content''))))
     = Inr \<lparr>final_result_code = 29\<rparr>"
proof -
  let ?w' = "\<lparr>files = [''cfg'' \<mapsto> ''valid_data_content'', ''other'' \<mapsto> ''malformed''],
              cout = ''earlier output'', cerr = ''earlier errors''\<rparr>"
  let ?w = "world_with ''cfg'' ''valid_data_content''"
  have h: "files ?w' ''cfg'' = files ?w ''cfg''"
    by (simp add: world_with_def empty_world_def)
  have d: "files ?w' \<noteq> files ?w"
  proof
    assume "files ?w' = files ?w"
    then have "files ?w' ''other'' = files ?w ''other''"
      by (rule arg_cong [where f = "\<lambda>m. m ''other''"])
    then show False
      by (simp add: world_with_def empty_world_def)
  qed
  have r: "fst (call_pipeline ''cfg'' ?w) = Inr \<lparr>final_result_code = 29\<rparr>"
    by (simp add: run_defs)
  show ?thesis
    using h d r C8_two_runs_equal_results [of ?w' "''cfg''" ?w]
    by simp
qed

text \<open>
  C9. For every error the variant can hold, the dispatcher runs the lambda written for
  the alternative held, the one at the variant's index, and writes that lambda's text
  after the header line; the generic fallback lambda never runs and its text is never
  written.
\<close>

theorem C9_fallback_arm_never_runs:
  "fst (visit typed_arms fallback_arm e) = Typed (index e) \<and>
   index e < length typed_arms \<and>
   Some (snd (visit typed_arms fallback_arm e)) = (typed_arms ! index e) e \<and>
   fst (visit typed_arms fallback_arm e) \<noteq> Fallback \<and>
   snd (visit typed_arms fallback_arm e) \<noteq> fallback_arm e \<and>
   cerr (handle_pipeline_result (Inl e) w)
     \<noteq> cerr w @ endl @ ''Pipeline Failed! Error details: '' @ fallback_arm e \<and>
   Some (cerr (handle_pipeline_result (Inl e) w))
     = map_option (\<lambda>m. cerr w @ endl @ ''Pipeline Failed! Error details: '' @ m)
         ((typed_arms ! index e) e) \<and>
   cout (handle_pipeline_result (Inl e) w) = cout w \<and>
   files (handle_pipeline_result (Inl e) w) = files w"
  by (cases e)
     (simp_all add: visit_def typed_arms_def fallback_arm_def handle_pipeline_result_def
        write_cerr_def)

text \<open>
  C10. Whatever the path and the files, the pipeline never ends in a
  \<open>ProcessingError\<close>. A \<open>Config\<close> that Load returns has a text that is not empty;
  what Validate makes of it has at least 12 characters, and Process does not fail on it.
\<close>

theorem C10_pipeline_never_processing_error:
  "fst (call_pipeline p w) \<noteq> Inl (ProcessingError a b) \<and>
   (fst (call_pipeline p w) = Inl e \<longrightarrow> index e < 3) \<and>
   (fst (LoadConfig p w) = Inr cfg \<longrightarrow>
      data cfg \<noteq> [] \<and>
      (fst (ValidateData cfg w') = Inr vd \<longrightarrow>
         12 \<le> length (processed_data vd) \<and> \<not> isl (fst (ProcessData vd w''))))"
proof -
  have nonempty: "data c \<noteq> []" if "fst (LoadConfig p w) = Inr c" for c
    using that by (auto simp: LoadConfig_fst split: option.splits if_splits)
  have long: "12 \<le> length (processed_data v)"
    if "fst (LoadConfig p w) = Inr c" "fst (ValidateData c u) = Inr v" for c u v
  proof -
    from that(2) have "processed_data v = ''Validated: '' @ data c"
      by (auto simp: ValidateData_fst split: if_splits)
    moreover have "1 \<le> length (data c)"
      using nonempty [OF that(1)] by (cases "data c") simp_all
    ultimately show ?thesis
      by simp
  qed
  have no_fail: "\<not> isl (fst (ProcessData v u'))"
    if "fst (LoadConfig p w) = Inr c" "fst (ValidateData c u) = Inr v" for c u v u'
    using long [OF that] by (simp add: ProcessData_fst)
  have kinds: "index e < 3" if "fst (call_pipeline p w) = Inl e" for e
  proof (cases "fst (LoadConfig p w)")
    case (Inl e1)
    with that have "e = e1"
      by (simp add: call_pipeline_fst)
    with Inl show ?thesis
      by (auto simp: LoadConfig_fst split: option.splits if_splits)
  next
    case (Inr c)
    show ?thesis
    proof (cases "fst (ValidateData c w)")
      case (Inl e2)
      with that Inr have "e = e2"
        by (simp add: call_pipeline_fst)
      with Inl show ?thesis
        by (auto simp: ValidateData_fst split: if_splits)
    next
      case vd: (Inr v)
      have "\<not> isl (fst (ProcessData v w))"
        using no_fail [of c w v w] Inr vd by simp
      with that Inr vd show ?thesis
        by (simp add: call_pipeline_fst)
    qed
  qed
  have "fst (call_pipeline p w) \<noteq> Inl (ProcessingError a b)"
    using kinds [of "ProcessingError a b"] by auto
  with nonempty long no_fail kinds show ?thesis
    by blast
qed

theorem C10_pipeline_never_processing_error_witness:
  "fst (call_pipeline ''short_data_config.txt''
          (world_with ''short_data_config.txt'' ''short''))
     \<noteq> Inl (ProcessingError ''Data Processing'' ''Input data too short for task'') \<and>
   fst (LoadConfig ''c'' (world_with ''c'' ''x'')) = Inr \<lparr>data = ''x''\<rparr> \<and>
   fst (ValidateData \<lparr>data = ''x''\<rparr> empty_world) = Inr \<lparr>processed_data = ''Validated: x''\<rparr> \<and>
   12 \<le> length (processed_data \<lparr>processed_data = ''Validated: x''\<rparr>) \<and>
   \<not> isl (fst (ProcessData \<lparr>processed_data = ''Validated: x''\<rparr> empty_world)) \<and>
   fst (call_pipeline ''c'' (world_with ''c'' ''malformed'')) = Inl (ConfigParseError ''malformed'' 1) \<and>
   index (ConfigParseError ''malformed'' 1) < 3"
proof -
  have l: "fst (LoadConfig ''c'' (world_with ''c'' ''x'')) = Inr \<lparr>data = ''x''\<rparr>"
    by (simp add: run_defs)
  have v: "fst (ValidateData \<lparr>data = ''x''\<rparr> empty_world)
      = Inr \<lparr>processed_data = ''Validated: x''\<rparr>"
    by (simp add: run_defs)
  have m: "fst (call_pipeline ''c'' (world_with ''c'' ''malformed''))
      = Inl (ConfigParseError ''malformed'' 1)"
    by (simp add: run_defs)
  show ?thesis
    using l v m
      C10_pipeline_never_processing_error
        [of "''short_data_config.txt''" "world_with ''short_data_config.txt'' ''short''"
            "''Data Processing''" "''Input data too short for task''"]
      C10_pipeline_never_processing_error
        [of "''c''" "world_with ''c'' ''x''" _ _ _ "\<lparr>data = ''x''\<rparr>" empty_world
            "\<lparr>processed_data = ''Validated: x''\<rparr>" empty_world]
      C10_pipeline_never_processing_error
        [of "''c''" "world_with ''c'' ''malformed''" _ _ "ConfigParseError ''malformed'' 1"]
    by simp
qed

end
